theory Spec2Isabelle
  imports Main "HOL-Library.Char_ord"
begin

section \<open>Go values\<close>

text \<open>
  A Go \<open>string\<close> (and a \<open>[]byte\<close>) is a sequence of bytes: it is modelled as
  \<^typ>\<open>string\<close>, a list of 8-bit characters, compared with the order of
  their codes. Go's \<open>int\<close> is taken as the 64-bit integer of the usual platforms and
  modelled as \<^typ>\<open>int\<close>; the only place that can overflow it is the JSON
  decoder, which rejects a literal outside the range (see \<open>ParseInt\<close>).
\<close>

abbreviation byte :: "char \<Rightarrow> nat" where
  "byte c \<equiv> of_char c"

definition isDigit :: "char \<Rightarrow> bool" where
  "isDigit c = (CHR ''0'' \<le> c \<and> c \<le> CHR ''9'')"

definition ishex :: "char \<Rightarrow> bool" where
  "ishex c = ((CHR ''0'' \<le> c \<and> c \<le> CHR ''9'') \<or> (CHR ''a'' \<le> c \<and> c \<le> CHR ''f'')
     \<or> (CHR ''A'' \<le> c \<and> c \<le> CHR ''F''))"

definition unhex :: "char \<Rightarrow> nat" where
  "unhex c =
     (if CHR ''0'' \<le> c \<and> c \<le> CHR ''9'' then byte c - byte CHR ''0''
      else if CHR ''a'' \<le> c \<and> c \<le> CHR ''f'' then byte c - byte CHR ''a'' + 10
      else if CHR ''A'' \<le> c \<and> c \<le> CHR ''F'' then byte c - byte CHR ''A'' + 10
      else 0)"

section \<open>Package net/url: query escaping\<close>

text \<open>
  \<open>url.QueryEscape(s)\<close> is \<open>escape(s, encodeQueryComponent)\<close>. In that mode
  \<open>shouldEscape\<close> keeps the letters, the digits and \<open>- _ . ~\<close>; a space is
  written \<open>+\<close>, every other byte \<open>%XX\<close> with upper-case hexadecimal digits.
\<close>

definition upperhex :: string where
  "upperhex = ''0123456789ABCDEF''"

definition shouldEscape :: "char \<Rightarrow> bool" where
  "shouldEscape c =
     (if (CHR ''a'' \<le> c \<and> c \<le> CHR ''z'') \<or> (CHR ''A'' \<le> c \<and> c \<le> CHR ''Z'')
          \<or> (CHR ''0'' \<le> c \<and> c \<le> CHR ''9'')
      then False
      else if c = CHR ''-'' \<or> c = CHR ''_'' \<or> c = CHR ''.'' \<or> c = CHR ''~'' then False
      else True)"

fun escape :: "string \<Rightarrow> string" where
  "escape [] = []"
| "escape (c # s) =
     (if c = CHR '' '' then CHR ''+'' # escape s
      else if shouldEscape c
        then CHR ''%'' # upperhex ! (byte c div 16) # upperhex ! (byte c mod 16) # escape s
      else c # escape s)"

definition QueryEscape :: "string \<Rightarrow> string" where
  "QueryEscape s = escape s"

datatype url_error = EscapeError string

text \<open>
  \<open>url.QueryUnescape\<close>: \<open>%XX\<close> is one byte, \<open>+\<close> a space; a \<open>%\<close> that is not
  followed by two hexadecimal digits is an \<open>EscapeError\<close>.
\<close>

fun unescape :: "string \<Rightarrow> url_error + string" where
  "unescape [] = Inr []"
| "unescape (c # s) =
     (if c = CHR ''%'' then
        (case s of
           h1 # h2 # rest \<Rightarrow>
             if ishex h1 \<and> ishex h2
             then map_sum id (Cons (char_of (unhex h1 * 16 + unhex h2))) (unescape rest)
             else Inl (EscapeError (take 3 (c # s)))
         | _ \<Rightarrow> Inl (EscapeError (take 3 (c # s))))
      else if c = CHR ''+'' then map_sum id (Cons CHR '' '') (unescape s)
      else map_sum id (Cons c) (unescape s))"

definition QueryUnescape :: "string \<Rightarrow> url_error + string" where
  "QueryUnescape s = unescape s"

text \<open>
  \<open>strings.Cut(s, sep)\<close> for a one-byte separator: the text before the first
  separator and the text after it (empty when there is none).
\<close>

definition Cut :: "char \<Rightarrow> string \<Rightarrow> string \<times> string" where
  "Cut sep s = (takeWhile (\<lambda>c. c \<noteq> sep) s, drop 1 (dropWhile (\<lambda>c. c \<noteq> sep) s))"

lemma Cut_shorter: "q \<noteq> [] \<Longrightarrow> length (snd (Cut sep q)) < length q"
proof -
  assume "q \<noteq> []"
  then have "0 < length q"
    by simp
  moreover have "length (dropWhile (\<lambda>c. c \<noteq> sep) q) \<le> length q"
    by (rule length_dropWhile_le)
  ultimately show ?thesis
    unfolding Cut_def snd_conv length_drop by arith
qed

type_synonym Values = "string \<rightharpoonup> string list"

text \<open>
  \<open>url.ParseQuery\<close>, the loop of \<open>parseQuery\<close>: the query is cut at each \<open>&\<close>; a
  setting that holds a semicolon, is empty, or fails to unescape is skipped (the error
  it leaves is dropped by \<open>URL.Query\<close>); the others append their value under their key.
\<close>

function parseQuery :: "Values \<Rightarrow> string \<Rightarrow> Values" where
  "parseQuery m query =
     (if query = [] then m
      else
        (let key = fst (Cut CHR ''&'' query); rest = snd (Cut CHR ''&'' query) in
         if CHR '';'' \<in> set key then parseQuery m rest
         else if key = [] then parseQuery m rest
         else
           (case QueryUnescape (fst (Cut CHR ''='' key)) of
              Inl _ \<Rightarrow> parseQuery m rest
            | Inr k \<Rightarrow>
                (case QueryUnescape (snd (Cut CHR ''='' key)) of
                   Inl _ \<Rightarrow> parseQuery m rest
                 | Inr v \<Rightarrow>
                     parseQuery (m(k \<mapsto> (case m k of None \<Rightarrow> [] | Some vs \<Rightarrow> vs) @ [v])) rest))))"
  by pat_completeness auto
termination
  by (relation "measure (\<lambda>(m, query). length query)") (simp_all add: Cut_shorter)

definition Has :: "Values \<Rightarrow> string \<Rightarrow> bool" where
  "Has v key = (v key \<noteq> None)"

definition Get :: "Values \<Rightarrow> string \<Rightarrow> string" where
  "Get v key = (case v key of None \<Rightarrow> [] | Some [] \<Rightarrow> [] | Some (x # _) \<Rightarrow> x)"

section \<open>Package fmt: the verbs the handlers use\<close>

text \<open>
  \<open>%s\<close> writes the bytes of a string (or byte slice) as they are, \<open>%t\<close> writes
  \<open>true\<close> or \<open>false\<close>, \<open>%d\<close> the decimal digits of an integer with a leading
  \<open>-\<close> when it is negative. \<open>ctx.Value(keyServerAddr)\<close> is an interface value:
  the string stored by \<open>BaseContext\<close>, or nil when no value was stored, for which
  \<open>%s\<close> writes \<open>%!s(<nil>)\<close>.
\<close>

definition digits :: string where
  "digits = ''0123456789''"

function formatUint :: "int \<Rightarrow> string" where
  "formatUint n =
     (if n < 10 then [digits ! nat n] else formatUint (n div 10) @ [digits ! nat (n mod 10)])"
  by pat_completeness auto
termination
  by (relation "measure nat") auto

declare formatUint.simps [simp del]

definition Itoa :: "int \<Rightarrow> string" where
  "Itoa i = (if i < 0 then CHR ''-'' # formatUint (- i) else formatUint i)"

definition fmt_t :: "bool \<Rightarrow> string" where
  "fmt_t b = (if b then ''true'' else ''false'')"

definition fmt_s_any :: "string option \<Rightarrow> string" where
  "fmt_s_any v = (case v of None \<Rightarrow> ''%!s(<nil>)'' | Some s \<Rightarrow> s)"

section \<open>Package net/http: requests and the response writer\<close>

text \<open>
  A body is a stream: the bytes it delivers and how it ends, with \<open>io.EOF\<close>
  (\<open>rd_err = None\<close>) or with a read error after those bytes.
\<close>

record Reader =
  rd_data :: string
  rd_err :: "string option"

text \<open>\<open>io.ReadAll\<close>: the bytes read, and the error unless the stream ended with EOF.\<close>

definition ReadAll :: "Reader \<Rightarrow> string \<times> string option" where
  "ReadAll r = (rd_data r, rd_err r)"

text \<open>
  What the handlers read of \<open>*http.Request\<close>: the method, the raw query of the URL,
  the value stored under \<open>keyServerAddr\<close> in the context, and the body.
\<close>

record Request =
  Method :: string
  RawQuery :: string
  serverAddr :: "string option"
  Body :: Reader

definition Query :: "Request \<Rightarrow> Values" where
  "Query r = parseQuery Map.empty (RawQuery r)"

text \<open>
  The response writer: the header map, the status code once the header is written,
  and the bytes written to the body. The first \<open>Write\<close> writes the header with status
  200 when \<open>WriteHeader\<close> has not been called; a later \<open>WriteHeader\<close> changes nothing,
  and the header map no longer reaches the response once the header is written. A
  handler that returns without writing gets status 200 from the server.
\<close>

record ResponseWriter =
  header :: "string \<rightharpoonup> string"
  status :: "nat option"
  written :: string

definition newWriter :: ResponseWriter where
  "newWriter = \<lparr>header = Map.empty, status = None, written = []\<rparr>"

definition Header_Set :: "string \<Rightarrow> string \<Rightarrow> ResponseWriter \<Rightarrow> ResponseWriter" where
  "Header_Set k v w = (if status w = None then w\<lparr>header := (header w)(k \<mapsto> v)\<rparr> else w)"

definition WriteHeader :: "nat \<Rightarrow> ResponseWriter \<Rightarrow> ResponseWriter" where
  "WriteHeader code w = (if status w = None then w\<lparr>status := Some code\<rparr> else w)"

definition Write :: "string \<Rightarrow> ResponseWriter \<Rightarrow> ResponseWriter" where
  "Write b w = (let w' = WriteHeader 200 w in w'\<lparr>written := written w' @ b\<rparr>)"

definition StatusCode_of :: "ResponseWriter \<Rightarrow> nat" where
  "StatusCode_of w = (case status w of None \<Rightarrow> 200 | Some code \<Rightarrow> code)"

definition StatusOK :: nat where
  "StatusOK = 200"

definition StatusBadRequest :: nat where
  "StatusBadRequest = 400"

definition StatusInternalServerError :: nat where
  "StatusInternalServerError = 500"

text \<open>
  \<open>http.Error(w, error, code)\<close> sets the content type to plain text, sets
  \<open>X-Content-Type-Options: nosniff\<close>, writes the header with \<open>code\<close> and prints the
  message and a newline to the body.
\<close>

definition Error :: "string \<Rightarrow> nat \<Rightarrow> ResponseWriter \<Rightarrow> ResponseWriter" where
  "Error msg code w =
     Write (msg @ ''\<newline>'')
       (WriteHeader code
         (Header_Set ''X-Content-Type-Options'' ''nosniff''
           (Header_Set ''Content-Type'' ''text/plain; charset=utf-8'' w)))"

section \<open>Package unicode/utf8\<close>

text \<open>
  \<open>utf8.DecodeRune\<close> reads one rune from the head of a byte sequence: the size of a
  well-formed encoding (1 to 4 bytes; no overlong form, no surrogate, nothing above
  U+10FFFF), or \<open>RuneError\<close> and size 1, written here as size 0.
  \<open>utf8.EncodeRune\<close> writes a rune; a surrogate or a value out of range is written as
  U+FFFD.
\<close>

definition cont :: "nat \<Rightarrow> nat \<Rightarrow> string \<Rightarrow> bool" where
  "cont lo hi s = (case s of [] \<Rightarrow> False | c # _ \<Rightarrow> lo \<le> byte c \<and> byte c \<le> hi)"

definition DecodeRune_size :: "string \<Rightarrow> nat" where
  "DecodeRune_size p =
     (case p of
        [] \<Rightarrow> 0
      | c # s \<Rightarrow>
          let b = byte c; tail2 = cont 0x80 0xBF (drop 1 s); tail3 = tail2 \<and> cont 0x80 0xBF (drop 2 s) in
          if b < 0x80 then 1
          else if b < 0xC2 then 0
          else if b \<le> 0xDF then (if cont 0x80 0xBF s then 2 else 0)
          else if b = 0xE0 then (if cont 0xA0 0xBF s \<and> tail2 then 3 else 0)
          else if b = 0xED then (if cont 0x80 0x9F s \<and> tail2 then 3 else 0)
          else if b \<le> 0xEF then (if cont 0x80 0xBF s \<and> tail2 then 3 else 0)
          else if b = 0xF0 then (if cont 0x90 0xBF s \<and> tail3 then 4 else 0)
          else if b \<le> 0xF3 then (if cont 0x80 0xBF s \<and> tail3 then 4 else 0)
          else if b = 0xF4 then (if cont 0x80 0x8F s \<and> tail3 then 4 else 0)
          else 0)"

definition RuneError :: string where
  "RuneError = [CHR 0xEF, CHR 0xBF, CHR 0xBD]"

definition EncodeRune :: "nat \<Rightarrow> string" where
  "EncodeRune r =
     (if r < 0x80 then [char_of r]
      else if r < 0x800 then [char_of (0xC0 + r div 64), char_of (0x80 + r mod 64)]
      else if (0xD800 \<le> r \<and> r < 0xE000) \<or> 0x10FFFF < r then RuneError
      else if r < 0x10000 then
        [char_of (0xE0 + r div 4096), char_of (0x80 + r div 64 mod 64), char_of (0x80 + r mod 64)]
      else [char_of (0xF0 + r div 262144), char_of (0x80 + r div 4096 mod 64),
            char_of (0x80 + r div 64 mod 64), char_of (0x80 + r mod 64)])"

section \<open>Package encoding/json: reading a value\<close>

text \<open>
  A JSON value as the decoder sees it: a number keeps its literal (the target type
  decides how it is read), a string and an object key are unquoted, an object keeps its
  members in order, duplicates included.
\<close>

datatype json = JNull | JBool bool | JNumber string | JString string
  | JArray "json list" | JObject "(string \<times> json) list"

datatype 'a scanned = Got 'a string | Bad | NoFuel

definition isSpace :: "char \<Rightarrow> bool" where
  "isSpace c = (c = CHR '' '' \<or> c = CHR 0x09 \<or> c = CHR 0x0D \<or> c = CHR 0x0A)"

text \<open>
  Unquoting (\<open>unquoteBytes\<close>) on top of the scanner's string states. \<open>getu4\<close> reads
  a leading \<open>\uXXXX\<close>; a surrogate escape is joined with a following low surrogate
  escape, and is U+FFFD (the second escape left unread) when that fails. A byte below
  0x20 is refused; bytes that are not well-formed UTF-8 are replaced by U+FFFD one at a
  time.
\<close>

definition getu4 :: "string \<Rightarrow> nat option" where
  "getu4 s =
     (case s of
        b # u # h1 # h2 # h3 # h4 # _ \<Rightarrow>
          if b = CHR 0x5C \<and> u = CHR ''u'' \<and> ishex h1 \<and> ishex h2 \<and> ishex h3 \<and> ishex h4
          then Some (((unhex h1 * 16 + unhex h2) * 16 + unhex h3) * 16 + unhex h4)
          else None
      | _ \<Rightarrow> None)"

definition IsSurrogate :: "nat \<Rightarrow> bool" where
  "IsSurrogate r = (0xD800 \<le> r \<and> r < 0xE000)"

definition utf16_DecodeRune :: "nat \<Rightarrow> nat option \<Rightarrow> nat option" where
  "utf16_DecodeRune r1 r2o =
     (case r2o of
        None \<Rightarrow> None
      | Some r2 \<Rightarrow>
          if 0xD800 \<le> r1 \<and> r1 < 0xDC00 \<and> 0xDC00 \<le> r2 \<and> r2 < 0xE000
          then Some ((r1 - 0xD800) * 1024 + (r2 - 0xDC00) + 0x10000)
          else None)"

definition simple_escape :: "char \<Rightarrow> char option" where
  "simple_escape e =
     (if e = CHR 0x22 \<or> e = CHR 0x5C \<or> e = CHR ''/'' then Some e
      else if e = CHR ''b'' then Some (CHR 0x08)
      else if e = CHR ''f'' then Some (CHR 0x0C)
      else if e = CHR ''n'' then Some (CHR 0x0A)
      else if e = CHR ''r'' then Some (CHR 0x0D)
      else if e = CHR ''t'' then Some (CHR 0x09)
      else None)"

definition prepend :: "string \<Rightarrow> string scanned \<Rightarrow> string scanned" where
  "prepend p r = (case r of Got t rest \<Rightarrow> Got (p @ t) rest | Bad \<Rightarrow> Bad | NoFuel \<Rightarrow> NoFuel)"

function scan_string :: "string \<Rightarrow> string scanned" where
  "scan_string [] = Bad"
| "scan_string (c # s) =
     (if c = CHR 0x22 then Got [] s
      else if c = CHR 0x5C then
        (case s of
           [] \<Rightarrow> Bad
         | e # s' \<Rightarrow>
             if e = CHR ''u'' then
               (case getu4 (c # s) of
                  None \<Rightarrow> Bad
                | Some rr \<Rightarrow>
                    if IsSurrogate rr then
                      (case utf16_DecodeRune rr (getu4 (drop 5 s)) of
                         Some dec \<Rightarrow> prepend (EncodeRune dec) (scan_string (drop 11 s))
                       | None \<Rightarrow> prepend RuneError (scan_string (drop 5 s)))
                    else prepend (EncodeRune rr) (scan_string (drop 5 s)))
             else
               (case simple_escape e of
                  None \<Rightarrow> Bad
                | Some d \<Rightarrow> prepend [d] (scan_string s')))
      else if byte c < 0x20 then Bad
      else if byte c < 0x80 then prepend [c] (scan_string s)
      else
        (let n = DecodeRune_size (c # s) in
         if n = 0 then prepend RuneError (scan_string s)
         else prepend (take n (c # s)) (scan_string (drop n (c # s)))))"
  by pat_completeness auto
termination
  by (relation "measure length") auto

text \<open>
  A number literal, as the scanner's states \<open>stateNeg\<close> to \<open>stateE0\<close> accept it: an
  optional minus, \<open>0\<close> or a digit sequence without leading zero, an optional fraction,
  an optional exponent. The result is the literal and the text after it.
\<close>

definition scan_frac :: "string \<Rightarrow> (string \<times> string) option" where
  "scan_frac s =
     (case s of
        [] \<Rightarrow> Some ([], [])
      | c # r \<Rightarrow>
          if c = CHR ''.'' then
            (if takeWhile isDigit r = [] then None
             else Some (c # takeWhile isDigit r, dropWhile isDigit r))
          else Some ([], s))"

definition scan_exp :: "string \<Rightarrow> (string \<times> string) option" where
  "scan_exp s =
     (case s of
        [] \<Rightarrow> Some ([], [])
      | c # r \<Rightarrow>
          if c = CHR ''e'' \<or> c = CHR ''E'' then
            (let sg = (case r of [] \<Rightarrow> [] | x # _ \<Rightarrow> if x = CHR ''+'' \<or> x = CHR ''-'' then [x] else []);
                 r1 = drop (length sg) r
             in if takeWhile isDigit r1 = [] then None
                else Some (c # sg @ takeWhile isDigit r1, dropWhile isDigit r1))
          else Some ([], s))"

definition scan_number :: "string \<Rightarrow> string scanned" where
  "scan_number s =
     (let sg = (case s of [] \<Rightarrow> [] | c # _ \<Rightarrow> if c = CHR ''-'' then [c] else []);
          s1 = drop (length sg) s
      in case s1 of
           [] \<Rightarrow> Bad
         | d # r \<Rightarrow>
             if \<not> isDigit d then Bad
             else
               (let ip = (if d = CHR ''0'' then [d] else d # takeWhile isDigit r);
                    s2 = drop (length ip) s1
                in case scan_frac s2 of
                     None \<Rightarrow> Bad
                   | Some (fp, s3) \<Rightarrow>
                       (case scan_exp s3 of
                          None \<Rightarrow> Bad
                        | Some (ep, s4) \<Rightarrow> Got (sg @ ip @ fp @ ep) s4)))"

definition scan_literal :: "string \<Rightarrow> json scanned" where
  "scan_literal s =
     (if take 4 s = ''true'' then Got (JBool True) (drop 4 s)
      else if take 5 s = ''false'' then Got (JBool False) (drop 5 s)
      else if take 4 s = ''null'' then Got JNull (drop 4 s)
      else Bad)"

text \<open>
  The grammar of the scanner (\<open>stateBeginValue\<close>, \<open>stateEndValue\<close> and the rest) as
  a recursive descent that builds the value. The first argument bounds the depth of the
  recursion and is set from the length of the input by \<open>parse\<close>
  (\<open>parse_fuel\<close> below shows the bound is never reached); the second is the number of
  open arrays and objects, which the scanner limits to \<open>maxNestingDepth\<close>.
\<close>

definition maxNestingDepth :: nat where
  "maxNestingDepth = 10000"

fun parse_value :: "nat \<Rightarrow> nat \<Rightarrow> string \<Rightarrow> json scanned"
  and parse_elems :: "nat \<Rightarrow> nat \<Rightarrow> json list \<Rightarrow> string \<Rightarrow> json scanned"
  and parse_members :: "nat \<Rightarrow> nat \<Rightarrow> (string \<times> json) list \<Rightarrow> string \<Rightarrow> json scanned"
where
  "parse_value 0 d s = NoFuel"
| "parse_value (Suc n) d s =
     (case dropWhile isSpace s of
        [] \<Rightarrow> Bad
      | c # r \<Rightarrow>
          if c = CHR ''{'' then
            (if maxNestingDepth \<le> d then Bad
             else case dropWhile isSpace r of
                    [] \<Rightarrow> Bad
                  | c' # r' \<Rightarrow>
                      if c' = CHR ''}'' then Got (JObject []) r'
                      else parse_members n (d + 1) [] (c' # r'))
          else if c = CHR ''['' then
            (if maxNestingDepth \<le> d then Bad
             else case dropWhile isSpace r of
                    [] \<Rightarrow> Bad
                  | c' # r' \<Rightarrow>
                      if c' = CHR '']'' then Got (JArray []) r'
                      else parse_elems n (d + 1) [] (c' # r'))
          else if c = CHR 0x22 then
            (case scan_string r of
               Got t rest \<Rightarrow> Got (JString t) rest
             | Bad \<Rightarrow> Bad
             | NoFuel \<Rightarrow> NoFuel)
          else if c = CHR ''-'' \<or> isDigit c then
            (case scan_number (c # r) of
               Got l rest \<Rightarrow> Got (JNumber l) rest
             | Bad \<Rightarrow> Bad
             | NoFuel \<Rightarrow> NoFuel)
          else scan_literal (c # r))"
| "parse_elems 0 d acc s = NoFuel"
| "parse_elems (Suc n) d acc s =
     (case parse_value n d s of
        Got v rest \<Rightarrow>
          (case dropWhile isSpace rest of
             [] \<Rightarrow> Bad
           | c # r \<Rightarrow>
               if c = CHR '','' then parse_elems n d (v # acc) r
               else if c = CHR '']'' then Got (JArray (rev (v # acc))) r
               else Bad)
      | Bad \<Rightarrow> Bad
      | NoFuel \<Rightarrow> NoFuel)"
| "parse_members 0 d acc s = NoFuel"
| "parse_members (Suc n) d acc s =
     (case dropWhile isSpace s of
        [] \<Rightarrow> Bad
      | c # r \<Rightarrow>
          if c \<noteq> CHR 0x22 then Bad
          else
            (case scan_string r of
               Got k rest \<Rightarrow>
                 (case dropWhile isSpace rest of
                    [] \<Rightarrow> Bad
                  | c1 # r1 \<Rightarrow>
                      if c1 \<noteq> CHR '':'' then Bad
                      else
                        (case parse_value n d r1 of
                           Got v rest2 \<Rightarrow>
                             (case dropWhile isSpace rest2 of
                                [] \<Rightarrow> Bad
                              | c2 # r2 \<Rightarrow>
                                  if c2 = CHR '','' then parse_members n d ((k, v) # acc) r2
                                  else if c2 = CHR ''}'' then Got (JObject (rev ((k, v) # acc))) r2
                                  else Bad)
                         | Bad \<Rightarrow> Bad
                         | NoFuel \<Rightarrow> NoFuel))
             | Bad \<Rightarrow> Bad
             | NoFuel \<Rightarrow> NoFuel))"

definition parse :: "string \<Rightarrow> json scanned" where
  "parse s = parse_value (2 * length s + 1) 0 s"

text \<open>
  \<open>Decoder.Decode\<close> first reads the next value of the stream (\<open>readValue\<close>). An
  array or object ends with its closing bracket, and nothing after it is looked at. Any
  other value ends at the byte after it, or at the end of the stream; a stream that
  fails right after it leaves the value incomplete. The handlers only test
  \<open>err != nil\<close>, so the errors of this stage (\<open>*SyntaxError\<close>, \<open>io.EOF\<close>,
  \<open>io.ErrUnexpectedEOF\<close>, the reader's own error) are one value.
\<close>

datatype json_error = NoValueRead | UnmarshalTypeError

definition isContainer :: "json \<Rightarrow> bool" where
  "isContainer v = (case v of JArray _ \<Rightarrow> True | JObject _ \<Rightarrow> True | _ \<Rightarrow> False)"

definition readValue :: "Reader \<Rightarrow> json_error + json" where
  "readValue r =
     (case parse (rd_data r) of
        Got v rest \<Rightarrow>
          if isContainer v \<or> rest \<noteq> [] \<or> rd_err r = None then Inr v else Inl NoValueRead
      | Bad \<Rightarrow> Inl NoValueRead
      | NoFuel \<Rightarrow> Inl NoValueRead)"

section \<open>Package encoding/json: storing a value in a struct\<close>

text \<open>
  \<open>strconv.ParseInt(s, 10, 64)\<close> on a JSON number literal: a sign, then digits only,
  and a value that fits 64 bits.
\<close>

definition ParseInt :: "string \<Rightarrow> int option" where
  "ParseInt s =
     (let neg = (take 1 s = ''-'');
          ds = (if take 1 s = ''-'' \<or> take 1 s = ''+'' then drop 1 s else s)
      in if ds = [] \<or> \<not> list_all isDigit ds then None
         else
           (let n = foldl (\<lambda>a c. 10 * a + int (byte c - byte CHR ''0'')) 0 ds;
                v = (if neg then - n else n)
            in if - (2 ^ 63) \<le> v \<and> v < 2 ^ 63 then Some v else None))"

text \<open>
  A member of a JSON object goes to the struct field whose name equals its key, or,
  failing that, whose name equals it under \<open>foldName\<close>: ASCII letters without case,
  and the two runes that fold to ASCII letters, U+017F to \<open>S\<close> and U+212A to \<open>K\<close>.
  (Go also folds the other non-ASCII runes, among themselves; as every field name here
  is ASCII, a key holding one matches no field either way.)
\<close>

function foldName :: "string \<Rightarrow> string" where
  "foldName [] = []"
| "foldName (c # s) =
     (if CHR ''a'' \<le> c \<and> c \<le> CHR ''z'' then char_of (byte c - 32) # foldName s
      else if c = CHR 0xC5 \<and> take 1 s = [CHR 0xBF] then CHR ''S'' # foldName (drop 1 s)
      else if c = CHR 0xE2 \<and> take 2 s = [CHR 0x84, CHR 0xAA] then CHR ''K'' # foldName (drop 2 s)
      else c # foldName s)"
  by pat_completeness auto
termination
  by (relation "measure length") auto

definition matchField :: "string \<Rightarrow> string \<Rightarrow> bool" where
  "matchField name key = (key = name \<or> foldName key = foldName name)"

text \<open>
  \<open>literalStore\<close>, \<open>object\<close> and \<open>array\<close> for the three kinds of field the
  handlers' structs have. \<open>null\<close> leaves a string, an int and a struct as they are; a
  value of another kind is an \<open>UnmarshalTypeError\<close>. The decoder goes on after such
  an error and returns it at the end; as the handlers drop the struct when there is an
  error, the model stops at the first one.
\<close>

definition store_string :: "json \<Rightarrow> string \<Rightarrow> json_error + string" where
  "store_string v cur =
     (case v of JString s \<Rightarrow> Inr s | JNull \<Rightarrow> Inr cur | _ \<Rightarrow> Inl UnmarshalTypeError)"

definition store_int :: "json \<Rightarrow> int \<Rightarrow> json_error + int" where
  "store_int v cur =
     (case v of
        JNumber l \<Rightarrow> (case ParseInt l of Some n \<Rightarrow> Inr n | None \<Rightarrow> Inl UnmarshalTypeError)
      | JNull \<Rightarrow> Inr cur
      | _ \<Rightarrow> Inl UnmarshalTypeError)"

record HelloRequest =
  Name :: string
  Age :: int
  Hobby :: string

record TranslateRequest =
  Text :: string
  Target :: string
  Source :: string

record TranslateResponse =
  TranslatedText :: string

text \<open>
  The anonymous struct \<open>apiResponse\<close> of \<open>getTranslate\<close> and its field
  \<open>ResponseData\<close>, itself an anonymous struct with the one field \<open>TranslatedText\<close>
  (written \<open>api_TranslatedText\<close>: the name is taken by \<open>TranslateResponse\<close>).
\<close>

record apiResponseData =
  api_TranslatedText :: string

record apiResponse =
  ResponseData :: apiResponseData

fun object_HelloRequest :: "(string \<times> json) list \<Rightarrow> HelloRequest \<Rightarrow> json_error + HelloRequest" where
  "object_HelloRequest [] req = Inr req"
| "object_HelloRequest ((key, v) # kvs) req =
     (if matchField ''Name'' key then
        (case store_string v (Name req) of
           Inl e \<Rightarrow> Inl e
         | Inr s \<Rightarrow> object_HelloRequest kvs (req\<lparr>Name := s\<rparr>))
      else if matchField ''Age'' key then
        (case store_int v (Age req) of
           Inl e \<Rightarrow> Inl e
         | Inr n \<Rightarrow> object_HelloRequest kvs (req\<lparr>Age := n\<rparr>))
      else if matchField ''Hobby'' key then
        (case store_string v (Hobby req) of
           Inl e \<Rightarrow> Inl e
         | Inr s \<Rightarrow> object_HelloRequest kvs (req\<lparr>Hobby := s\<rparr>))
      else object_HelloRequest kvs req)"

definition unmarshal_HelloRequest :: "json \<Rightarrow> HelloRequest \<Rightarrow> json_error + HelloRequest" where
  "unmarshal_HelloRequest v req =
     (case v of
        JObject kvs \<Rightarrow> object_HelloRequest kvs req
      | JNull \<Rightarrow> Inr req
      | _ \<Rightarrow> Inl UnmarshalTypeError)"

fun object_TranslateRequest ::
  "(string \<times> json) list \<Rightarrow> TranslateRequest \<Rightarrow> json_error + TranslateRequest" where
  "object_TranslateRequest [] req = Inr req"
| "object_TranslateRequest ((key, v) # kvs) req =
     (if matchField ''text'' key then
        (case store_string v (Text req) of
           Inl e \<Rightarrow> Inl e
         | Inr s \<Rightarrow> object_TranslateRequest kvs (req\<lparr>Text := s\<rparr>))
      else if matchField ''target'' key then
        (case store_string v (Target req) of
           Inl e \<Rightarrow> Inl e
         | Inr s \<Rightarrow> object_TranslateRequest kvs (req\<lparr>Target := s\<rparr>))
      else if matchField ''source'' key then
        (case store_string v (Source req) of
           Inl e \<Rightarrow> Inl e
         | Inr s \<Rightarrow> object_TranslateRequest kvs (req\<lparr>Source := s\<rparr>))
      else object_TranslateRequest kvs req)"

definition unmarshal_TranslateRequest ::
  "json \<Rightarrow> TranslateRequest \<Rightarrow> json_error + TranslateRequest" where
  "unmarshal_TranslateRequest v req =
     (case v of
        JObject kvs \<Rightarrow> object_TranslateRequest kvs req
      | JNull \<Rightarrow> Inr req
      | _ \<Rightarrow> Inl UnmarshalTypeError)"

fun object_apiResponseData ::
  "(string \<times> json) list \<Rightarrow> apiResponseData \<Rightarrow> json_error + apiResponseData" where
  "object_apiResponseData [] d = Inr d"
| "object_apiResponseData ((key, v) # kvs) d =
     (if matchField ''translatedText'' key then
        (case store_string v (api_TranslatedText d) of
           Inl e \<Rightarrow> Inl e
         | Inr s \<Rightarrow> object_apiResponseData kvs (d\<lparr>api_TranslatedText := s\<rparr>))
      else object_apiResponseData kvs d)"

definition unmarshal_apiResponseData ::
  "json \<Rightarrow> apiResponseData \<Rightarrow> json_error + apiResponseData" where
  "unmarshal_apiResponseData v d =
     (case v of
        JObject kvs \<Rightarrow> object_apiResponseData kvs d
      | JNull \<Rightarrow> Inr d
      | _ \<Rightarrow> Inl UnmarshalTypeError)"

fun object_apiResponse :: "(string \<times> json) list \<Rightarrow> apiResponse \<Rightarrow> json_error + apiResponse" where
  "object_apiResponse [] a = Inr a"
| "object_apiResponse ((key, v) # kvs) a =
     (if matchField ''responseData'' key then
        (case unmarshal_apiResponseData v (ResponseData a) of
           Inl e \<Rightarrow> Inl e
         | Inr d \<Rightarrow> object_apiResponse kvs (a\<lparr>ResponseData := d\<rparr>))
      else object_apiResponse kvs a)"

definition unmarshal_apiResponse :: "json \<Rightarrow> apiResponse \<Rightarrow> json_error + apiResponse" where
  "unmarshal_apiResponse v a =
     (case v of
        JObject kvs \<Rightarrow> object_apiResponse kvs a
      | JNull \<Rightarrow> Inr a
      | _ \<Rightarrow> Inl UnmarshalTypeError)"

text \<open>
  \<open>json.NewDecoder(body).Decode(&v)\<close> on a freshly declared variable (\<open>var req T\<close>,
  every field at its zero value): read the next value, then store it.
\<close>

definition Decode_HelloRequest :: "Reader \<Rightarrow> json_error + HelloRequest" where
  "Decode_HelloRequest body =
     (case readValue body of
        Inl e \<Rightarrow> Inl e
      | Inr v \<Rightarrow> unmarshal_HelloRequest v \<lparr>Name = [], Age = 0, Hobby = []\<rparr>)"

definition Decode_TranslateRequest :: "Reader \<Rightarrow> json_error + TranslateRequest" where
  "Decode_TranslateRequest body =
     (case readValue body of
        Inl e \<Rightarrow> Inl e
      | Inr v \<Rightarrow> unmarshal_TranslateRequest v \<lparr>Text = [], Target = [], Source = []\<rparr>)"

definition Decode_apiResponse :: "Reader \<Rightarrow> json_error + apiResponse" where
  "Decode_apiResponse body =
     (case readValue body of
        Inl e \<Rightarrow> Inl e
      | Inr v \<Rightarrow> unmarshal_apiResponse v \<lparr>ResponseData = \<lparr>api_TranslatedText = []\<rparr>\<rparr>)"

section \<open>Package encoding/json: writing a value\<close>

text \<open>
  \<open>appendString\<close> with \<open>escapeHTML\<close> set, as \<open>Encoder.Encode\<close> calls it: the
  printable ASCII bytes are kept but for the quote, the backslash and \<open><\<close>,
  \<open>>\<close>, \<open>&\<close>; the quote and the backslash get a backslash, five control bytes
  their short escape, the other ASCII bytes \<open>\u00XX\<close>; a byte that is not well-formed
  UTF-8 is written \<open>\ufffd\<close>, U+2028 and U+2029 are escaped, every other rune is
  copied. (Releases before Go 1.22 write backspace and form feed as \<open>\u0008\<close> and
  \<open>\u000c\<close>, which read back as the same bytes.)
\<close>

definition hex :: string where
  "hex = ''0123456789abcdef''"

definition htmlSafe :: "char \<Rightarrow> bool" where
  "htmlSafe b =
     (0x20 \<le> byte b \<and> byte b < 0x80 \<and> b \<noteq> CHR 0x22 \<and> b \<noteq> CHR 0x5C
      \<and> b \<noteq> CHR ''<'' \<and> b \<noteq> CHR ''>'' \<and> b \<noteq> CHR ''&'')"

definition escapeByte :: "char \<Rightarrow> string" where
  "escapeByte b =
     (if b = CHR 0x5C \<or> b = CHR 0x22 then [CHR 0x5C, b]
      else if b = CHR 0x08 then [CHR 0x5C, CHR ''b'']
      else if b = CHR 0x0C then [CHR 0x5C, CHR ''f'']
      else if b = CHR 0x0A then [CHR 0x5C, CHR ''n'']
      else if b = CHR 0x0D then [CHR 0x5C, CHR ''r'']
      else if b = CHR 0x09 then [CHR 0x5C, CHR ''t'']
      else [CHR 0x5C, CHR ''u'', CHR ''0'', CHR ''0'', hex ! (byte b div 16), hex ! (byte b mod 16)])"

function appendString :: "string \<Rightarrow> string" where
  "appendString [] = []"
| "appendString (b # s) =
     (if byte b < 0x80 then
        (if htmlSafe b then b # appendString s else escapeByte b @ appendString s)
      else
        (let n = DecodeRune_size (b # s) in
         if n = 0 then CHR 0x5C # ''ufffd'' @ appendString s
         else if take 3 (b # s) = [CHR 0xE2, CHR 0x80, CHR 0xA8]
           then CHR 0x5C # ''u2028'' @ appendString (drop n (b # s))
         else if take 3 (b # s) = [CHR 0xE2, CHR 0x80, CHR 0xA9]
           then CHR 0x5C # ''u2029'' @ appendString (drop n (b # s))
         else take n (b # s) @ appendString (drop n (b # s))))"
  by pat_completeness auto
termination
  by (relation "measure length") auto

definition quote :: "string \<Rightarrow> string" where
  "quote s = CHR 0x22 # appendString s @ [CHR 0x22]"

text \<open>
  \<open>json.NewEncoder(w).Encode(response)\<close> for a \<open>TranslateResponse\<close>: the object
  with the one member named by the field's tag, then a newline.
\<close>

definition Marshal_TranslateResponse :: "TranslateResponse \<Rightarrow> string" where
  \<open>Marshal_TranslateResponse r = ''{"translatedText":'' @ quote (TranslatedText r) @ ''}''\<close>

definition Encode_TranslateResponse :: "TranslateResponse \<Rightarrow> string" where
  "Encode_TranslateResponse r = Marshal_TranslateResponse r @ ''\<newline>''"

section \<open>What a handler does to the world\<close>

text \<open>
  A handler writes to its response writer, prints to standard output and, for the
  translation handler, sends GET requests: the state holds the writer, the text printed
  and the URLs requested, in order.
\<close>

record World =
  w :: ResponseWriter
  stdout :: string
  outbound :: "string list"

definition world0 :: World where
  "world0 = \<lparr>w = newWriter, stdout = [], outbound = []\<rparr>"

definition Printf :: "string \<Rightarrow> World \<Rightarrow> World" where
  "Printf text \<sigma> = \<sigma>\<lparr>stdout := stdout \<sigma> @ text\<rparr>"

definition WriteString :: "string \<Rightarrow> World \<Rightarrow> World" where
  "WriteString text \<sigma> = \<sigma>\<lparr>w := Write text (w \<sigma>)\<rparr>"

definition http_Error :: "string \<Rightarrow> nat \<Rightarrow> World \<Rightarrow> World" where
  "http_Error msg code \<sigma> = \<sigma>\<lparr>w := Error msg code (w \<sigma>)\<rparr>"

section \<open>The root handler\<close>

text \<open>
  \<open>getRoot\<close> (the same text in both source files): it reads the query parameters
  \<open>first\<close> and \<open>second\<close>, reads the whole body, prints the read error if there is
  one, prints the request, and writes the fixed text.
\<close>

definition getRoot :: "Request \<Rightarrow> World \<Rightarrow> World" where
  "getRoot r \<sigma> =
     (let hasFirst = Has (Query r) ''first'';
          first = Get (Query r) ''first'';
          hasSecond = Has (Query r) ''second'';
          second = Get (Query r) ''second'';
          (body, err) = ReadAll (Body r);
          \<sigma>1 = (case err of
                  Some e \<Rightarrow> Printf (''could not read body: '' @ e @ ''\<newline>'') \<sigma>
                | None \<Rightarrow> \<sigma>);
          \<sigma>2 = Printf (fmt_s_any (serverAddr r) @ '': got / request. first('' @ fmt_t hasFirst
                  @ '')='' @ first @ '', second('' @ fmt_t hasSecond @ '')='' @ second
                  @ '', body:\<newline>'' @ body @ ''\<newline>'') \<sigma>1
      in WriteString ''This is my website!\<newline>'' \<sigma>2)"

section \<open>The greeting handler\<close>

text \<open>
  \<open>getHello\<close> (the same text in both source files): decode the body into a
  \<open>HelloRequest\<close>, refuse a decoding error and an \<open>Age\<close> that is not positive with
  status 400, otherwise print the request and write the greeting.
\<close>

definition getHello :: "Request \<Rightarrow> World \<Rightarrow> World" where
  "getHello r \<sigma> =
     (case Decode_HelloRequest (Body r) of
        Inl err \<Rightarrow> http_Error ''Bad Request: invalid JSON'' StatusBadRequest \<sigma>
      | Inr req \<Rightarrow>
          if Age req \<le> 0
          then http_Error ''Bad Request: Age must be a positive number'' StatusBadRequest \<sigma>
          else
            (let \<sigma>1 = Printf (fmt_s_any (serverAddr r) @ '': got /hello request\<newline>'') \<sigma>;
                 \<sigma>2 = Printf (''Name: '' @ Name req @ '', Age: '' @ Itoa (Age req) @ '', Hobby: ''
                         @ Hobby req @ ''\<newline>'') \<sigma>1
             in WriteString (''Hello, '' @ Name req @ ''! You are '' @ Itoa (Age req)
                  @ '' years old and enjoy '' @ Hobby req @ ''.\<newline>'') \<sigma>2))"

section \<open>The translation handler\<close>

text \<open>
  What \<open>http.Get\<close> returns for a URL is the network's answer: an error, or the
  response with its status code, its status text and its body. The handler takes it as
  a parameter; every call is recorded in \<open>outbound\<close>.
\<close>

record Response =
  StatusCode :: nat
  Status :: string
  Response_Body :: Reader

type_synonym Net = "string \<Rightarrow> string + Response"

definition http_Get :: "Net \<Rightarrow> string \<Rightarrow> World \<Rightarrow> (string + Response) \<times> World" where
  "http_Get net url \<sigma> = (net url, \<sigma>\<lparr>outbound := outbound \<sigma> @ [url]\<rparr>)"

definition apiBase :: string where
  "apiBase = ''https://api.mymemory.translated.net''"

definition getTranslate :: "Net \<Rightarrow> Request \<Rightarrow> World \<Rightarrow> World" where
  "getTranslate net r \<sigma> =
     (case Decode_TranslateRequest (Body r) of
        Inl err \<Rightarrow> http_Error ''Bad Request: invalid JSON'' StatusBadRequest \<sigma>
      | Inr req \<Rightarrow>
          if Text req = [] \<or> Source req = [] \<or> Target req = []
          then http_Error ''Bad Request: missing required fields'' StatusBadRequest \<sigma>
          else
            (let encodedText = QueryEscape (Text req);
                 apiURL = apiBase @ ''/get?q='' @ encodedText @ ''&langpair='' @ Source req
                          @ ''|'' @ Target req;
                 \<sigma>1 = Printf (''API URL: '' @ apiURL @ ''\<newline>'') \<sigma>;
                 (res, \<sigma>2) = http_Get net apiURL \<sigma>1
             in case res of
                  Inl err \<Rightarrow>
                    http_Error ''Internal Server Error: failed to make request''
                      StatusInternalServerError \<sigma>2
                | Inr resp \<Rightarrow>
                    if StatusCode resp \<noteq> StatusOK
                    then http_Error (''External API error: '' @ Status resp)
                           StatusInternalServerError \<sigma>2
                    else
                      (case Decode_apiResponse (Response_Body resp) of
                         Inl err \<Rightarrow>
                           http_Error ''Internal Server Error: failed to parse response''
                             StatusInternalServerError \<sigma>2
                       | Inr apiResponse \<Rightarrow>
                           (let response =
                                  \<lparr>TranslatedText = api_TranslatedText (ResponseData apiResponse)\<rparr>;
                                \<sigma>3 = \<sigma>2\<lparr>w := Header_Set ''Content-Type'' ''application/json'' (w \<sigma>2)\<rparr>
                            in \<sigma>3\<lparr>w := Write (Encode_TranslateResponse response) (w \<sigma>3)\<rparr>))))"

section \<open>Verified properties\<close>

subsection \<open>The response writer\<close>

lemma Write_fresh:
  "status x = None \<Longrightarrow> Write b x = x\<lparr>status := Some 200, written := written x @ b\<rparr>"
  by (simp add: Write_def WriteHeader_def Let_def)

lemma Error_fresh:
  "status x = None \<Longrightarrow>
     status (Error msg code x) = Some code \<and> written (Error msg code x) = written x @ msg @ ''\<newline>''"
  by (simp add: Error_def Write_def WriteHeader_def Header_Set_def Let_def)

lemma Printf_w [simp]: "w (Printf t \<sigma>) = w \<sigma>" and Printf_outbound [simp]: "outbound (Printf t \<sigma>) = outbound \<sigma>"
  by (simp_all add: Printf_def)

subsection \<open>The JSON reader never runs out of fuel\<close>

text \<open>
  Each scanner consumes input when it succeeds, so the recursion of the parser is no
  deeper than twice the length of the input: with the bound \<open>parse\<close> gives it, the
  parser never stops for lack of fuel, and \<open>Bad\<close> always is a refusal of the input.
\<close>

lemma prepend_Got: "prepend p r = Got t rest \<longleftrightarrow> (\<exists>t'. r = Got t' rest \<and> t = p @ t')"
  by (cases r) (auto simp: prepend_def)

lemma scan_string_shorter: "scan_string s = Got t rest \<Longrightarrow> length rest < length s"
proof (induction s arbitrary: t rule: scan_string.induct)
  case 1
  then show ?case by simp
next
  case (2 c s)
  show ?case
    using "2.prems" "2.IH"
    by (auto simp: prepend_Got Let_def split: if_splits list.splits option.splits) fastforce+
qed

lemma scan_frac_shorter: "scan_frac s = Some (fp, r) \<Longrightarrow> length r \<le> length s"
  using length_dropWhile_le [of isDigit "tl s"]
  by (auto simp: scan_frac_def split: list.splits if_splits)

lemma scan_exp_shorter: "scan_exp s = Some (ep, r) \<Longrightarrow> length r \<le> length s"
  using length_dropWhile_le [of isDigit "drop 2 s"] length_dropWhile_le [of isDigit "drop 1 s"]
  by (auto simp: scan_exp_def Let_def split: list.splits if_splits)

lemma scan_number_shorter: "scan_number s = Got l rest \<Longrightarrow> length rest < length s"
  by (auto simp: scan_number_def Let_def split: list.splits if_splits option.splits
      dest!: scan_frac_shorter scan_exp_shorter)

lemma scan_literal_shorter: "scan_literal s = Got v rest \<Longrightarrow> length rest < length s"
  by (cases s) (auto simp: scan_literal_def split: if_splits)

lemma dropWhile_Cons_shorter: "dropWhile P s = c # r \<Longrightarrow> length r < length s"
  using length_dropWhile_le [of P s] by simp

lemma parse_shorter_aux:
  "(\<forall>d s v rest. parse_value n d s = Got v rest \<longrightarrow> length rest < length s)
   \<and> (\<forall>d acc s v rest. parse_elems n d acc s = Got v rest \<longrightarrow> length rest < length s)
   \<and> (\<forall>d ms s v rest. parse_members n d ms s = Got v rest \<longrightarrow> length rest < length s)"
proof (induction n)
  case 0
  show ?case by simp
next
  case (Suc n)
  have V: "length rest < length s" if "parse_value n d s = Got v rest" for d s v rest
    using Suc.IH that by blast
  have E: "length rest < length s" if "parse_elems n d acc s = Got v rest" for d acc s v rest
    using Suc.IH that by blast
  have M: "length rest < length s" if "parse_members n d ms s = Got v rest" for d ms s v rest
    using Suc.IH that by blast
  have "length rest < length s" if "parse_value (Suc n) d s = Got v rest" for d s v rest
    using that
    by (auto split: list.splits if_splits scanned.splits
        dest!: dropWhile_Cons_shorter scan_string_shorter scan_number_shorter scan_literal_shorter E M)
  moreover have "length rest < length s" if "parse_elems (Suc n) d acc s = Got v rest" for d acc s v rest
    using that
    by (auto split: list.splits if_splits scanned.splits dest!: dropWhile_Cons_shorter V E)
  moreover have "length rest < length s" if "parse_members (Suc n) d ms s = Got v rest" for d ms s v rest
    using that
    by (auto split: list.splits if_splits scanned.splits
        dest!: dropWhile_Cons_shorter scan_string_shorter V M)
  ultimately show ?case by blast
qed

lemma prepend_NoFuel: "prepend p r = NoFuel \<longleftrightarrow> r = NoFuel"
  by (cases r) (auto simp: prepend_def)

lemma scan_string_fuel: "scan_string s \<noteq> NoFuel"
proof (induction s rule: scan_string.induct)
  case 1
  show ?case by simp
next
  case (2 c s)
  show ?case
  proof
    assume "scan_string (c # s) = NoFuel"
    with "2.IH" show False
      by (auto simp: prepend_NoFuel Let_def split: if_splits list.splits option.splits)
  qed
qed

lemma scan_number_fuel: "scan_number s \<noteq> NoFuel"
  by (auto simp: scan_number_def Let_def split: list.splits option.splits)

lemma scan_literal_fuel: "scan_literal s \<noteq> NoFuel"
  by (auto simp: scan_literal_def)

lemma parse_value_Suc_fuel:
  assumes E: "\<And>d acc s. 2 * length s + 1 < n \<Longrightarrow> parse_elems n d acc s \<noteq> NoFuel"
    and M: "\<And>d ms s. 2 * length s + 1 < n \<Longrightarrow> parse_members n d ms s \<noteq> NoFuel"
    and len: "2 * length s < Suc n"
  shows "parse_value (Suc n) d s \<noteq> NoFuel"
proof (cases "dropWhile isSpace s")
  case Nil
  then show ?thesis by (simp del: dropWhile_eq_Nil_conv)
next
  case (Cons c r)
  then have lr: "length r < length s"
    by (rule dropWhile_Cons_shorter)
  have inner: "parse_elems n (d + 1) [] (c' # r') \<noteq> NoFuel \<and> parse_members n (d + 1) [] (c' # r') \<noteq> NoFuel"
    if "dropWhile isSpace r = c' # r'" for c' r'
  proof -
    from that have "length r' < length r"
      by (rule dropWhile_Cons_shorter)
    with lr len have "2 * length (c' # r') + 1 < n"
      by simp
    then show ?thesis
      using E M by blast
  qed
  have str: "(case scan_string r of Got t rest \<Rightarrow> Got (JString t) rest | Bad \<Rightarrow> Bad | NoFuel \<Rightarrow> NoFuel) \<noteq> NoFuel"
    using scan_string_fuel [of r] by (cases "scan_string r") simp_all
  have num: "(case scan_number (c # r) of Got l rest \<Rightarrow> Got (JNumber l) rest | Bad \<Rightarrow> Bad | NoFuel \<Rightarrow> NoFuel) \<noteq> NoFuel"
    using scan_number_fuel [of "c # r"] by (cases "scan_number (c # r)") simp_all
  show ?thesis
  proof (cases "dropWhile isSpace r")
    case Nil
    with Cons str num scan_literal_fuel [of "c # r"] show ?thesis
      by (simp del: dropWhile_eq_Nil_conv)
  next
    case inner_Cons: (Cons c' r')
    with Cons str num scan_literal_fuel [of "c # r"] inner [OF inner_Cons] show ?thesis
      by auto
  qed
qed

lemma parse_elems_Suc_fuel:
  assumes V: "\<And>d s. 2 * length s < n \<Longrightarrow> parse_value n d s \<noteq> NoFuel"
    and E: "\<And>d acc s. 2 * length s + 1 < n \<Longrightarrow> parse_elems n d acc s \<noteq> NoFuel"
    and len: "2 * length s + 1 < Suc n"
  shows "parse_elems (Suc n) d acc s \<noteq> NoFuel"
proof (cases "parse_value n d s")
  case (Got v rest)
  then have l1: "length rest < length s"
    using parse_shorter_aux [of n] by blast
  show ?thesis
  proof (cases "dropWhile isSpace rest")
    case Nil
    with Got show ?thesis by (simp del: dropWhile_eq_Nil_conv)
  next
    case (Cons c r)
    then have "length r < length rest"
      by (rule dropWhile_Cons_shorter)
    with l1 len have "2 * length r + 1 < n"
      by simp
    then have "parse_elems n d (v # acc) r \<noteq> NoFuel"
      by (rule E)
    with Got Cons show ?thesis by simp
  qed
next
  case Bad
  then show ?thesis by simp
next
  case NoFuel
  from len have "2 * length s < n" by simp
  with V NoFuel show ?thesis by blast
qed

lemma parse_members_Suc_fuel:
  assumes V: "\<And>d s. 2 * length s < n \<Longrightarrow> parse_value n d s \<noteq> NoFuel"
    and M: "\<And>d ms s. 2 * length s + 1 < n \<Longrightarrow> parse_members n d ms s \<noteq> NoFuel"
    and len: "2 * length s + 1 < Suc n"
  shows "parse_members (Suc n) d ms s \<noteq> NoFuel"
proof (cases "dropWhile isSpace s")
  case Nil
  then show ?thesis by (simp del: dropWhile_eq_Nil_conv)
next
  case s_Cons: (Cons c r)
  then have lr: "length r < length s"
    by (rule dropWhile_Cons_shorter)
  show ?thesis
  proof (cases "scan_string r")
    case key: (Got k rest)
    then have l1: "length rest < length r"
      by (rule scan_string_shorter)
    show ?thesis
    proof (cases "dropWhile isSpace rest")
      case Nil
      with s_Cons key show ?thesis by (simp del: dropWhile_eq_Nil_conv)
    next
      case colon: (Cons c1 r1)
      then have l2: "length r1 < length rest"
        by (rule dropWhile_Cons_shorter)
      show ?thesis
      proof (cases "parse_value n d r1")
        case val: (Got v rest2)
        then have l3: "length rest2 < length r1"
          using parse_shorter_aux [of n] by blast
        show ?thesis
        proof (cases "dropWhile isSpace rest2")
          case Nil
          with s_Cons key colon val show ?thesis by (simp del: dropWhile_eq_Nil_conv)
        next
          case (Cons c2 r2)
          then have "length r2 < length rest2"
            by (rule dropWhile_Cons_shorter)
          with lr l1 l2 l3 len have "2 * length r2 + 1 < n"
            by simp
          then have "parse_members n d ((k, v) # ms) r2 \<noteq> NoFuel"
            by (rule M)
          with s_Cons key colon val Cons show ?thesis by simp
        qed
      next
        case Bad
        with s_Cons key colon show ?thesis by simp
      next
        case NoFuel
        from lr l1 l2 len have "2 * length r1 < n" by simp
        with V NoFuel show ?thesis by blast
      qed
    qed
  next
    case Bad
    with s_Cons show ?thesis by simp
  next
    case NoFuel
    with scan_string_fuel show ?thesis by simp
  qed
qed

lemma parse_fuel_aux:
  "(\<forall>d s. 2 * length s < n \<longrightarrow> parse_value n d s \<noteq> NoFuel)
   \<and> (\<forall>d acc s. 2 * length s + 1 < n \<longrightarrow> parse_elems n d acc s \<noteq> NoFuel)
   \<and> (\<forall>d ms s. 2 * length s + 1 < n \<longrightarrow> parse_members n d ms s \<noteq> NoFuel)"
proof (induction n)
  case 0
  show ?case by simp
next
  case (Suc n)
  then show ?case
    using parse_value_Suc_fuel [of n] parse_elems_Suc_fuel [of n] parse_members_Suc_fuel [of n]
    by blast
qed

lemma parse_fuel: "parse s \<noteq> NoFuel"
  using parse_fuel_aux [of "2 * length s + 1"] by (simp add: parse_def)

subsection \<open>The root handler\<close>

text \<open>
  C8. For every request (any method, any query, any body, a body whose read fails
  included) \<open>getRoot\<close>, run on a fresh response writer, ends with status 200 and the
  body \<open>This is my website!\<close> followed by a newline, sets no header and sends no
  outbound request: nothing in the request reaches the response.
\<close>

theorem getRoot_always_200:
  "StatusCode_of (w (getRoot r world0)) = StatusOK
   \<and> written (w (getRoot r world0)) = ''This is my website!\<newline>''
   \<and> header (w (getRoot r world0)) = Map.empty
   \<and> outbound (getRoot r world0) = []"
  by (simp add: getRoot_def Let_def WriteString_def Write_fresh world0_def newWriter_def
      StatusCode_of_def StatusOK_def split: option.split prod.split)

end
